theory Spec2Isabelle
  imports Main
begin

section \<open>JavaScript values\<close>

text \<open>
  The gateway moves JSON between an MCP client and the Asana REST API, so the model works
  on the values JavaScript has at run time. Numbers are integers or \<open>NaN\<close> (the only
  non-integer the modelled code can produce, out of \<open>parseInt\<close>); an object is the list of
  its own properties in insertion order, with distinct keys; a string is a list of code
  units below 256.
\<close>

datatype jsval =
    JUndefined
  | JNull
  | JBool bool
  | JNum int
  | JNaN
  | JStr string
  | JArr "jsval list"
  | JObj "(string \<times> jsval) list"

definition nullish :: "jsval \<Rightarrow> bool" where
  "nullish v = (v = JUndefined \<or> v = JNull)"

text \<open>\<open>ToBoolean\<close>: what \<open>if (v)\<close>, \<open>!v\<close>, \<open>v || w\<close> and \<open>v ? a : b\<close> test.\<close>

fun truthy :: "jsval \<Rightarrow> bool" where
  "truthy JUndefined = False"
| "truthy JNull = False"
| "truthy (JBool b) = b"
| "truthy (JNum n) = (n \<noteq> 0)"
| "truthy JNaN = False"
| "truthy (JStr s) = (s \<noteq> [])"
| "truthy (JArr xs) = True"
| "truthy (JObj kvs) = True"

definition js_or :: "jsval \<Rightarrow> jsval \<Rightarrow> jsval" where
  "js_or a b = (if truthy a then a else b)"

text \<open>
  \<open>v.k\<close> on a value that is neither \<open>null\<close> nor \<open>undefined\<close>, for the property names the
  source reads (none of them is \<open>length\<close>, an index or an inherited member, so only an
  object's own properties answer). On \<open>null\<close> and \<open>undefined\<close> the read throws a
  \<open>TypeError\<close>: each caller below tests \<open>nullish\<close> first.
\<close>

fun js_get :: "jsval \<Rightarrow> string \<Rightarrow> jsval" where
  "js_get (JObj kvs) k = (case map_of kvs k of None \<Rightarrow> JUndefined | Some v \<Rightarrow> v)"
| "js_get v k = JUndefined"

text \<open>\<open>v?.k\<close>\<close>

definition opt_get :: "jsval \<Rightarrow> string \<Rightarrow> jsval" where
  "opt_get v k = (if nullish v then JUndefined else js_get v k)"

text \<open>\<open>v?.[0]\<close>: the first element of an array, the first code unit of a string, the property
  \<open>0\<close> of an object.\<close>

fun opt_first :: "jsval \<Rightarrow> jsval" where
  "opt_first (JArr xs) = (case xs of [] \<Rightarrow> JUndefined | x # _ \<Rightarrow> x)"
| "opt_first (JStr s) = (case s of [] \<Rightarrow> JUndefined | c # _ \<Rightarrow> JStr [c])"
| "opt_first (JObj kvs) = js_get (JObj kvs) ''0''"
| "opt_first v = JUndefined"

subsection \<open>Strings\<close>

text \<open>\<open>Array.prototype.join\<close> on an array of strings.\<close>

fun join :: "string \<Rightarrow> string list \<Rightarrow> string" where
  "join sep [] = []"
| "join sep [x] = x"
| "join sep (x # y # ys) = x @ sep @ join sep (y # ys)"

fun digits10 :: "nat \<Rightarrow> string" where
  "digits10 n =
     (if n < 10 then [char_of (48 + n)]
      else digits10 (n div 10) @ [char_of (48 + n mod 10)])"

declare digits10.simps [simp del]

definition show_int :: "int \<Rightarrow> string" where
  "show_int i = (if i < 0 then CHR ''-'' # digits10 (nat (- i)) else digits10 (nat i))"

text \<open>\<open>ToString\<close>, which template literals and \<open>String(v)\<close> apply.\<close>

primrec to_string :: "jsval \<Rightarrow> string" where
  "to_string JUndefined = ''undefined''"
| "to_string JNull = ''null''"
| "to_string (JBool b) = (if b then ''true'' else ''false'')"
| "to_string (JNum n) = show_int n"
| "to_string JNaN = ''NaN''"
| "to_string (JStr s) = s"
| "to_string (JArr xs) =
     join '','' (map2 (\<lambda>x s. if nullish x then [] else s) xs (map to_string xs))"
| "to_string (JObj kvs) = ''[object Object]''"

subsection \<open>\<open>JSON.stringify\<close>\<close>

definition hex_digit :: "nat \<Rightarrow> char" where
  "hex_digit d = (if d < 10 then char_of (48 + d) else char_of (87 + d))"

text \<open>\<open>QuoteJSONString\<close>: the escapes of one code unit, then the quoted string.\<close>

definition json_escape :: "char \<Rightarrow> string" where
  "json_escape c =
     (if c = CHR 0x22 then [CHR 0x5C, CHR 0x22]
      else if c = CHR 0x5C then [CHR 0x5C, CHR 0x5C]
      else if c = CHR 0x08 then [CHR 0x5C, CHR ''b'']
      else if c = CHR 0x0C then [CHR 0x5C, CHR ''f'']
      else if c = CHR 0x0A then [CHR 0x5C, CHR ''n'']
      else if c = CHR 0x0D then [CHR 0x5C, CHR ''r'']
      else if c = CHR 0x09 then [CHR 0x5C, CHR ''t'']
      else if (of_char c :: nat) < 32
        then [CHR 0x5C, CHR ''u'', CHR ''0'', CHR ''0'',
              hex_digit (of_char c div 16), hex_digit (of_char c mod 16)]
      else [c])"

definition quote :: "string \<Rightarrow> string" where
  "quote s = CHR 0x22 # concat (map json_escape s) @ [CHR 0x22]"

text \<open>
  The brackets around the serialised members of an array or object: \<open>g\<close> is the width of
  the gap (0 for \<open>JSON.stringify(v)\<close>, 2 for \<open>JSON.stringify(v, null, 2)\<close>), \<open>i\<close> the
  indentation of the enclosing line.
\<close>

definition wrap :: "string \<Rightarrow> string \<Rightarrow> nat \<Rightarrow> nat \<Rightarrow> string list \<Rightarrow> string" where
  "wrap l r g i partial =
     (if partial = [] then l @ r
      else if g = 0 then l @ join '','' partial @ r
      else l @ [CHR 0x0A] @ replicate (i + g) CHR '' ''
             @ join ('','' @ [CHR 0x0A] @ replicate (i + g) CHR '' '') partial
             @ [CHR 0x0A] @ replicate i CHR '' '' @ r)"

definition member :: "nat \<Rightarrow> string \<times> string option \<Rightarrow> string list" where
  "member g kv =
     (case snd kv of
        None \<Rightarrow> []
      | Some s \<Rightarrow> [quote (fst kv) @ '':'' @ (if g = 0 then [] else '' '') @ s])"

text \<open>
  \<open>SerializeJSONProperty\<close>: \<open>None\<close> is the result \<open>undefined\<close>. A property whose value
  serialises to \<open>undefined\<close> is left out of its object; in an array it is written \<open>null\<close>.
\<close>

primrec ser :: "jsval \<Rightarrow> nat \<Rightarrow> nat \<Rightarrow> string option" where
  "ser JUndefined g i = None"
| "ser JNull g i = Some ''null''"
| "ser (JBool b) g i = Some (if b then ''true'' else ''false'')"
| "ser (JNum n) g i = Some (show_int n)"
| "ser JNaN g i = Some ''null''"
| "ser (JStr s) g i = Some (quote s)"
| "ser (JArr xs) g i =
     Some (wrap ''['' '']'' g i
       (map (\<lambda>x. case ser x g (i + g) of None \<Rightarrow> ''null'' | Some s \<Rightarrow> s) xs))"
| "ser (JObj kvs) g i =
     Some (wrap ''{'' ''}'' g i
       (concat (map (member g) (map (map_prod id (\<lambda>v. ser v g (i + g))) kvs))))"

definition stringify :: "nat \<Rightarrow> jsval \<Rightarrow> string option" where
  "stringify g v = ser v g 0"

section \<open>Errors\<close>

text \<open>
  What the code throws, one constructor for each \<open>new\<close> expression of the source:
  \<open>new RateLimitError(message, retryAfter)\<close>, \<open>new AuthenticationError(message)\<close>,
  \<open>new NotFoundError(resource, path)\<close>, \<open>new AsanaApiError(message, status)\<close> and
  \<open>new Error(message)\<close>. \<open>TypeError\<close> and \<open>SyntaxError\<close> are the engine's own (a property
  read on \<open>null\<close>, a body that is not JSON, a failed network call), with the engine's
  message; \<open>Thrown\<close> is a thrown value that is not an \<open>Error\<close>.
\<close>

datatype thrown =
    RateLimitError string jsval
  | AuthenticationError string
  | NotFoundError string string
  | AsanaApiError jsval nat
  | Error string
  | TypeError string
  | SyntaxError string
  | Thrown jsval

text \<open>
  Modelled from the spec: the error classes of \<open>utils/errors.ts\<close>, which is not among the
  sources (the client and the formatter only import them). The spec's taxonomy has four
  classified errors: the authentication error (not retryable), the rate-limit error
  (retryable, carrying the wait hint), the not-found error (naming the resource and the
  path) and the generic API error (carrying the status code). \<open>instanceof_AsanaApiError\<close>
  is the test \<open>error instanceof AsanaApiError\<close> of the formatter, \<open>retryable\<close> the field
  \<open>error.retryable\<close> it reads, \<open>message_of\<close> the field \<open>error.message\<close> (read only
  after an \<open>instanceof\<close> test, so never on a \<open>Thrown\<close> value). The spec marks
  only the rate-limit error as retryable. The wording of the not-found message is the
  model's; the spec fixes only that it names the resource and the path.
\<close>

fun instanceof_AsanaApiError :: "thrown \<Rightarrow> bool" where
  "instanceof_AsanaApiError (RateLimitError m w) = True"
| "instanceof_AsanaApiError (AuthenticationError m) = True"
| "instanceof_AsanaApiError (NotFoundError r p) = True"
| "instanceof_AsanaApiError (AsanaApiError m s) = True"
| "instanceof_AsanaApiError e = False"

text \<open>
  Modelled from the spec: \<open>error instanceof Error\<close>. The classified errors of the missing
  \<open>utils/errors.ts\<close> are errors with a message, like the engine's own; only a thrown value
  that is no error fails the test.
\<close>

fun instanceof_Error :: "thrown \<Rightarrow> bool" where
  "instanceof_Error (Thrown v) = False"
| "instanceof_Error e = True"

text \<open>
  Modelled from the spec: the field \<open>retryable\<close> of the classified errors of the missing
  \<open>utils/errors.ts\<close>. The spec calls the rate-limit error retryable and the authentication
  error not retryable, and says of no other error that it is retryable.
\<close>

fun retryable :: "thrown \<Rightarrow> bool" where
  "retryable (RateLimitError m w) = True"
| "retryable e = False"

text \<open>
  Modelled from the spec: the field \<open>message\<close> the constructors of the missing
  \<open>utils/errors.ts\<close> set. It is the message passed to the constructor (a value that is not a
  string is converted, as \<open>Error\<close> does); the not-found error, which is constructed from a
  resource and a path, names both.
\<close>

fun message_of :: "thrown \<Rightarrow> string" where
  "message_of (RateLimitError m w) = m"
| "message_of (AuthenticationError m) = m"
| "message_of (NotFoundError r p) = r @ '' not found: '' @ p"
| "message_of (AsanaApiError m s) = to_string m"
| "message_of (Error m) = m"
| "message_of (TypeError m) = m"
| "message_of (SyntaxError m) = m"
| "message_of (Thrown v) = []"

text \<open>
  Modelled from the spec: the wait hint the rate-limit error of the missing
  \<open>utils/errors.ts\<close> carries, which is the second argument of its constructor.
\<close>

fun wait_hint :: "thrown \<Rightarrow> jsval" where
  "wait_hint (RateLimitError m w) = w"
| "wait_hint e = JUndefined"

section \<open>Tenant credentials\<close>

record credentials =
  accessToken :: string

text \<open>The inbound request: the path of its URL (\<open>new URL(request.url).pathname\<close>), its
  method (\<open>request.method\<close>), its headers (what \<open>headers.get\<close> answers for a name, \<open>None\<close>
  being \<open>null\<close>) and its body.\<close>

record request =
  url_pathname :: string
  http_method :: string
  headers :: "string \<rightharpoonup> string"
  request_body :: string

definition parseTenantCredentials :: "request \<Rightarrow> credentials" where
  "parseTenantCredentials rq =
     \<lparr>accessToken =
        (case headers rq ''X-Asana-Access-Token'' of
           None \<Rightarrow> []
         | Some t \<Rightarrow> if t \<noteq> [] then t else [])\<rparr>"

definition validateCredentials :: "credentials \<Rightarrow> thrown + unit" where
  "validateCredentials c =
     (if accessToken c = [] then
        Inl (Error ''Missing credentials. Provide X-Asana-Access-Token header with your Asana Personal Access Token.'')
      else Inr ())"

section \<open>Transport entry point\<close>

text \<open>An outbound call to the Asana API, as \<open>fetch(url, init)\<close> receives it.\<close>

record fetch_request =
  fetch_url :: string
  fetch_method :: "string option"
  fetch_headers :: "(string \<times> string) list"
  fetch_body :: "string option"

text \<open>The response of the Worker: \<open>new Response(body, {status, headers})\<close>.\<close>

record response =
  status :: nat
  response_headers :: "(string \<times> string) list"
  body :: "string option"

text \<open>
  The handler that \<open>createMcpHandler\<close> of the MCP library builds for the server of one
  tenant is outside the repository. It is a parameter: from the credentials the server was
  built with and the request it answers, threading the log of the outbound Asana calls
  made so far.
\<close>

type_synonym mcp_handler =
  "credentials \<Rightarrow> request \<Rightarrow> fetch_request list \<Rightarrow> response \<times> fetch_request list"

definition SERVER_NAME :: string where
  "SERVER_NAME = ''primrose-mcp-asana''"

definition SERVER_VERSION :: string where
  "SERVER_VERSION = ''1.0.0''"

definition tool_names :: "string list" where
  "tool_names =
    [''asana_list_workspaces'', ''asana_get_workspace'', ''asana_update_workspace'',
     ''asana_add_user_to_workspace'', ''asana_remove_user_from_workspace'', ''asana_get_me'',
     ''asana_get_user'', ''asana_list_workspace_users'', ''asana_create_team'',
     ''asana_get_team'', ''asana_update_team'', ''asana_list_teams'',
     ''asana_list_user_teams'', ''asana_list_team_users'', ''asana_add_user_to_team'',
     ''asana_remove_user_from_team'', ''asana_create_project'', ''asana_get_project'',
     ''asana_update_project'', ''asana_delete_project'', ''asana_duplicate_project'',
     ''asana_list_projects'', ''asana_get_project_task_counts'', ''asana_add_members_to_project'',
     ''asana_remove_members_from_project'', ''asana_create_project_status'', ''asana_list_project_statuses'',
     ''asana_create_section'', ''asana_get_section'', ''asana_update_section'',
     ''asana_delete_section'', ''asana_list_project_sections'', ''asana_add_task_to_section'',
     ''asana_move_section'', ''asana_create_task'', ''asana_get_task'',
     ''asana_update_task'', ''asana_delete_task'', ''asana_duplicate_task'',
     ''asana_list_tasks'', ''asana_list_project_tasks'', ''asana_list_section_tasks'',
     ''asana_search_tasks'', ''asana_create_subtask'', ''asana_list_subtasks'',
     ''asana_set_parent_task'', ''asana_add_project_to_task'', ''asana_remove_project_from_task'',
     ''asana_add_tag_to_task'', ''asana_remove_tag_from_task'', ''asana_add_followers_to_task'',
     ''asana_list_task_dependencies'', ''asana_add_task_dependencies'', ''asana_remove_task_dependencies'',
     ''asana_list_task_dependents'', ''asana_create_tag'', ''asana_get_tag'',
     ''asana_update_tag'', ''asana_delete_tag'', ''asana_list_tags'',
     ''asana_list_task_tags'', ''asana_list_tag_tasks'', ''asana_add_comment'',
     ''asana_get_story'', ''asana_update_comment'', ''asana_delete_comment'',
     ''asana_list_task_stories'', ''asana_get_attachment'', ''asana_delete_attachment'',
     ''asana_list_task_attachments'', ''asana_create_custom_field'', ''asana_get_custom_field'',
     ''asana_update_custom_field'', ''asana_delete_custom_field'', ''asana_list_custom_fields'',
     ''asana_add_custom_field_to_project'', ''asana_remove_custom_field_from_project'', ''asana_create_portfolio'',
     ''asana_get_portfolio'', ''asana_update_portfolio'', ''asana_delete_portfolio'',
     ''asana_list_portfolios'', ''asana_list_portfolio_items'', ''asana_add_item_to_portfolio'',
     ''asana_remove_item_from_portfolio'', ''asana_add_members_to_portfolio'', ''asana_remove_members_from_portfolio'',
     ''asana_create_goal'', ''asana_get_goal'', ''asana_update_goal'',
     ''asana_delete_goal'', ''asana_list_goals'', ''asana_add_followers_to_goal'',
     ''asana_list_goal_parent_goals'', ''asana_list_goal_relationships'', ''asana_add_supporting_relationship'',
     ''asana_remove_supporting_relationship'', ''asana_create_webhook'', ''asana_get_webhook'',
     ''asana_update_webhook'', ''asana_delete_webhook'', ''asana_list_webhooks'',
     ''asana_typeahead'', ''asana_test_connection'']"

definition capability_document :: jsval where
  "capability_document =
     JObj [(''name'', JStr SERVER_NAME),
           (''version'', JStr SERVER_VERSION),
           (''description'', JStr ''Multi-tenant Asana MCP Server''),
           (''endpoints'', JObj
              [(''mcp'', JStr ''/mcp (POST) - Streamable HTTP MCP endpoint''),
               (''health'', JStr ''/health - Health check'')]),
           (''authentication'', JObj
              [(''description'', JStr ''Pass your Asana access token via request headers''),
               (''required_headers'', JObj
                  [(''X-Asana-Access-Token'',
                    JStr ''Asana Personal Access Token or OAuth access token'')])]),
           (''tools'', JArr (map JStr tool_names))]"

definition json_headers :: "(string \<times> string) list" where
  "json_headers = [(''Content-Type'', ''application/json'')]"

definition health_response :: response where
  "health_response =
     \<lparr>status = 200, response_headers = json_headers,
      body = stringify 0 (JObj [(''status'', JStr ''ok''), (''server'', JStr SERVER_NAME)])\<rparr>"

text \<open>The \<open>catch\<close> of the credential check reads
  \<open>error instanceof Error ? error.message : 'Invalid credentials'\<close>.\<close>

definition credential_message :: "thrown \<Rightarrow> string" where
  "credential_message error =
     (if instanceof_Error error then message_of error else ''Invalid credentials'')"

definition unauthorized_response :: "thrown \<Rightarrow> response" where
  "unauthorized_response error =
     \<lparr>status = 401, response_headers = json_headers,
      body = stringify 0
        (JObj [(''error'', JStr ''Unauthorized''),
               (''message'', JStr (credential_message error)),
               (''required_headers'', JArr [JStr ''X-Asana-Access-Token''])])\<rparr>"

definition sse_response :: response where
  "sse_response =
     \<lparr>status = 501, response_headers = [],
      body = Some ''SSE endpoint requires Durable Objects. Enable in wrangler.jsonc.''\<rparr>"

definition default_response :: response where
  "default_response =
     \<lparr>status = 200, response_headers = json_headers, body = stringify 0 capability_document\<rparr>"

definition fetch ::
  "mcp_handler \<Rightarrow> request \<Rightarrow> fetch_request list \<Rightarrow> response \<times> fetch_request list" where
  "fetch handler rq log =
     (if url_pathname rq = ''/health'' then (health_response, log)
      else if url_pathname rq = ''/mcp'' \<and> http_method rq = ''POST'' then
        (let credentials = parseTenantCredentials rq in
         case validateCredentials credentials of
           Inl error \<Rightarrow> (unauthorized_response error, log)
         | Inr _ \<Rightarrow> handler credentials rq log)
      else if url_pathname rq = ''/sse'' then (sse_response, log)
      else (default_response, log))"

section \<open>HTTP client adapter\<close>

text \<open>
  The response of the Asana API as the client reads it: the status, the headers
  (\<open>response.headers.get\<close>) and the body, which the client only ever parses as JSON
  (\<open>response.json()\<close>, or \<open>JSON.parse\<close> of \<open>response.text()\<close>): \<open>None\<close> is a body that is
  not JSON, on which both throw a \<open>SyntaxError\<close>.
\<close>

record upstream =
  up_status :: nat
  up_headers :: "string \<rightharpoonup> string"
  up_json :: "jsval option"

text \<open>The network: \<open>fetch\<close> resolves to a response or rejects.\<close>

type_synonym network = "fetch_request \<Rightarrow> thrown + upstream"

definition API_BASE_URL :: string where
  "API_BASE_URL = ''https://app.asana.com/api/1.0''"

definition getAuthHeaders :: "credentials \<Rightarrow> thrown + (string \<times> string) list" where
  "getAuthHeaders c =
     (if accessToken c = [] then
        Inl (AuthenticationError ''No access token provided. Include X-Asana-Access-Token header.'')
      else
        Inr [(''Authorization'', ''Bearer '' @ accessToken c),
             (''Content-Type'', ''application/json''),
             (''Accept'', ''application/json'')])"

text \<open>The \<open>RequestInit\<close> a resource method passes to \<open>request\<close>.\<close>

record request_init =
  init_method :: "string option"
  init_body :: "string option"
  init_headers :: "(string \<times> string) list option"

text \<open>Object spread \<open>{...a, ...b}\<close> of two string-valued objects.\<close>

definition spread :: "(string \<times> string) list \<Rightarrow> (string \<times> string) list \<Rightarrow> (string \<times> string) list" where
  "spread a b =
     map (\<lambda>kv. (fst kv, case map_of b (fst kv) of None \<Rightarrow> snd kv | Some w \<Rightarrow> w)) a
     @ filter (\<lambda>kv. map_of a (fst kv) = None) b"

subsection \<open>\<open>parseInt(s, 10)\<close>\<close>

definition is_space :: "char \<Rightarrow> bool" where
  "is_space c = ((of_char c :: nat) \<in> {9, 10, 11, 12, 13, 32, 160})"

definition is_digit :: "char \<Rightarrow> bool" where
  "is_digit c = (48 \<le> (of_char c :: nat) \<and> (of_char c :: nat) \<le> 57)"

definition digits_value :: "string \<Rightarrow> nat" where
  "digits_value ds = foldl (\<lambda>a c. 10 * a + (of_char c - 48)) 0 ds"

text \<open>
  Leading white space is skipped, a sign is read, then the longest run of decimal digits;
  no digit gives \<open>NaN\<close>. (The model keeps every digit, where the engine rounds above
  \<open>2^53\<close>, and has one zero.)
\<close>

definition parseInt :: "string \<Rightarrow> jsval" where
  "parseInt s =
     (let s1 = dropWhile is_space s;
          neg = (s1 \<noteq> [] \<and> hd s1 = CHR ''-'');
          s2 = (if s1 \<noteq> [] \<and> (hd s1 = CHR ''-'' \<or> hd s1 = CHR ''+'') then tl s1 else s1);
          ds = takeWhile is_digit s2
      in if ds = [] then JNaN
         else JNum (if neg then - int (digits_value ds) else int (digits_value ds)))"

text \<open>\<open>retryAfter ? parseInt(retryAfter, 10) : 60\<close> on the header \<open>Retry-After\<close>.\<close>

definition retry_after :: "upstream \<Rightarrow> jsval" where
  "retry_after response =
     (case up_headers response ''Retry-After'' of
        None \<Rightarrow> JNum 60
      | Some retryAfter \<Rightarrow> if retryAfter \<noteq> [] then parseInt retryAfter else JNum 60)"

definition ok :: "upstream \<Rightarrow> bool" where
  "ok response = (200 \<le> up_status response \<and> up_status response \<le> 299)"

text \<open>
  The message of the generic error: \<open>errorJson.errors?.[0]?.message || errorJson.message\<close>,
  or the default when that is falsy or when parsing or reading throws (a body that is not
  JSON, or is \<open>null\<close>).
\<close>

definition api_error_message :: "upstream \<Rightarrow> jsval" where
  "api_error_message response =
     (let message = JStr (''Asana API error: '' @ show_int (int (up_status response))) in
      case up_json response of
        None \<Rightarrow> message
      | Some errorJson \<Rightarrow>
          if nullish errorJson then message
          else js_or (js_or (opt_get (opt_first (js_get errorJson ''errors'')) ''message'')
                            (js_get errorJson ''message''))
                     message)"

text \<open>\<open>(await response.json()).data\<close> and its failures, with a fixed text in place of the
  engine's own message.\<close>

definition SYNTAX_ERROR :: thrown where
  "SYNTAX_ERROR = SyntaxError ''Unexpected end of JSON input''"

definition NULL_READ :: thrown where
  "NULL_READ = TypeError ''Cannot read properties of null or undefined''"

text \<open>The arguments of \<open>fetch(url, {...options, headers: {...auth, ...(options.headers || {})}})\<close>.\<close>

definition request_call :: "string \<Rightarrow> request_init \<Rightarrow> (string \<times> string) list \<Rightarrow> fetch_request" where
  "request_call endpoint options auth =
     \<lparr>fetch_url = API_BASE_URL @ endpoint, fetch_method = init_method options,
      fetch_headers = spread auth (case init_headers options of None \<Rightarrow> [] | Some h \<Rightarrow> h),
      fetch_body = init_body options\<rparr>"

definition request ::
  "network \<Rightarrow> credentials \<Rightarrow> string \<Rightarrow> request_init \<Rightarrow> fetch_request list
     \<Rightarrow> (thrown + jsval) \<times> fetch_request list" where
  "request net c endpoint options log =
     (case getAuthHeaders c of
        Inl e \<Rightarrow> (Inl e, log)
      | Inr auth \<Rightarrow>
          (let call = request_call endpoint options auth
           in case net call of
                Inl e \<Rightarrow> (Inl e, log @ [call])
              | Inr response \<Rightarrow>
                  (if up_status response = 429 then
                     Inl (RateLimitError ''Rate limit exceeded'' (retry_after response))
                   else if up_status response = 401 \<or> up_status response = 403 then
                     Inl (AuthenticationError ''Authentication failed. Check your Asana access token.'')
                   else if up_status response = 404 then
                     Inl (NotFoundError ''Resource'' endpoint)
                   else if \<not> ok response then
                     Inl (AsanaApiError (api_error_message response) (up_status response))
                   else if up_status response = 204 then
                     Inr JUndefined
                   else
                     (case up_json response of
                        None \<Rightarrow> Inl SYNTAX_ERROR
                      | Some json \<Rightarrow>
                          if nullish json then Inl NULL_READ else Inr (js_get json ''data'')),
                   log @ [call])))"

subsection \<open>The paginated path\<close>

record PaginationParams =
  limit :: "int option"
  offset :: "string option"

text \<open>
  \<open>URLSearchParams.toString\<close>: the \<open>application/x-www-form-urlencoded\<close> serialiser. A code
  unit from 128 on is two UTF-8 bytes.
\<close>

definition upper_hex :: "nat \<Rightarrow> char" where
  "upper_hex d = (if d < 10 then char_of (48 + d) else char_of (55 + d))"

definition percent :: "nat \<Rightarrow> string" where
  "percent b = [CHR ''%'', upper_hex (b div 16), upper_hex (b mod 16)]"

definition form_byte :: "char \<Rightarrow> string" where
  "form_byte c =
     (let n = (of_char c :: nat) in
      if n = 32 then ''+''
      else if (48 \<le> n \<and> n \<le> 57) \<or> (65 \<le> n \<and> n \<le> 90) \<or> (97 \<le> n \<and> n \<le> 122)
              \<or> n = 42 \<or> n = 45 \<or> n = 46 \<or> n = 95 then [c]
      else if n < 128 then percent n
      else percent (192 + n div 64) @ percent (128 + n mod 64))"

definition form_encode :: "string \<Rightarrow> string" where
  "form_encode s = concat (map form_byte s)"

definition query_string :: "(string \<times> string) list \<Rightarrow> string" where
  "query_string ps = join ''&'' (map (\<lambda>kv. form_encode (fst kv) @ ''='' @ form_encode (snd kv)) ps)"

definition pagination_query :: "PaginationParams \<Rightarrow> (string \<times> string) list" where
  "pagination_query params =
     (case limit params of
        None \<Rightarrow> []
      | Some l \<Rightarrow> if l \<noteq> 0 then [(''limit'', show_int l)] else [])
     @ (case offset params of
          None \<Rightarrow> []
        | Some off \<Rightarrow> if off \<noteq> [] then [(''offset'', off)] else [])"

text \<open>The URL of a list call, and the arguments of \<open>fetch(fullUrl, {headers: auth})\<close>.\<close>

definition paginated_url :: "string \<Rightarrow> PaginationParams \<Rightarrow> string" where
  "paginated_url endpoint params =
     (let queryParams = query_string (pagination_query params);
          separator = (if CHR ''?'' \<in> set endpoint then ''&'' else ''?'');
          url = endpoint @ (if queryParams \<noteq> [] then separator @ queryParams else [])
      in API_BASE_URL @ url)"

definition paginated_call :: "string \<Rightarrow> PaginationParams \<Rightarrow> (string \<times> string) list \<Rightarrow> fetch_request" where
  "paginated_call endpoint params auth =
     \<lparr>fetch_url = paginated_url endpoint params, fetch_method = None, fetch_headers = auth,
      fetch_body = None\<rparr>"

definition requestPaginated ::
  "network \<Rightarrow> credentials \<Rightarrow> string \<Rightarrow> PaginationParams \<Rightarrow> fetch_request list
     \<Rightarrow> (thrown + jsval) \<times> fetch_request list" where
  "requestPaginated net c endpoint params log =
     (case getAuthHeaders c of
        Inl e \<Rightarrow> (Inl e, log)
      | Inr auth \<Rightarrow>
          (let call = paginated_call endpoint params auth
           in case net call of
                Inl e \<Rightarrow> (Inl e, log @ [call])
              | Inr response \<Rightarrow>
                  (if up_status response = 429 then
                     Inl (RateLimitError ''Rate limit exceeded'' (retry_after response))
                   else if up_status response = 401 \<or> up_status response = 403 then
                     Inl (AuthenticationError ''Authentication failed. Check your Asana access token.'')
                   else if \<not> ok response then
                     Inl (AsanaApiError (api_error_message response) (up_status response))
                   else
                     (case up_json response of
                        None \<Rightarrow> Inl SYNTAX_ERROR
                      | Some json \<Rightarrow>
                          if nullish json then Inl NULL_READ
                          else Inr (JObj [(''data'', js_get json ''data''),
                                          (''nextPage'', js_get json ''next_page'')])),
                   log @ [call])))"

subsection \<open>Resource methods\<close>

definition no_options :: request_init where
  "no_options = \<lparr>init_method = None, init_body = None, init_headers = None\<rparr>"

definition getMe ::
  "network \<Rightarrow> credentials \<Rightarrow> fetch_request list \<Rightarrow> (thrown + jsval) \<times> fetch_request list" where
  "getMe net c log = request net c ''/users/me'' no_options log"

text \<open>\<open>testConnection\<close> catches whatever \<open>getMe\<close> or the reading of the user throws, and
  always returns.\<close>

definition testConnection ::
  "network \<Rightarrow> credentials \<Rightarrow> fetch_request list \<Rightarrow> (thrown + jsval) \<times> fetch_request list" where
  "testConnection net c log =
     (let failed = (\<lambda>error.
            JObj [(''connected'', JBool False),
                  (''message'', JStr (if instanceof_Error error then message_of error
                                      else ''Connection failed''))])
      in case getMe net c log of
           (Inl error, log') \<Rightarrow> (Inr (failed error), log')
         | (Inr user, log') \<Rightarrow>
             (if nullish user then Inr (failed NULL_READ)
              else Inr (JObj
                [(''connected'', JBool True),
                 (''message'', JStr (''Connected as '' @ to_string (js_get user ''name'') @ '' (''
                    @ to_string (js_or (js_get user ''email'') (JStr ''no email'')) @ '')'')),
                 (''user'', user)]),
              log'))"

definition createTask ::
  "network \<Rightarrow> credentials \<Rightarrow> jsval \<Rightarrow> fetch_request list \<Rightarrow> (thrown + jsval) \<times> fetch_request list" where
  "createTask net c data log =
     request net c ''/tasks''
       \<lparr>init_method = Some ''POST'', init_body = stringify 0 (JObj [(''data'', data)]),
        init_headers = None\<rparr> log"

definition getTask ::
  "network \<Rightarrow> credentials \<Rightarrow> string \<Rightarrow> string list option \<Rightarrow> fetch_request list
     \<Rightarrow> (thrown + jsval) \<times> fetch_request list" where
  "getTask net c taskGid optFields log =
     (let query = query_string
            (case optFields of
               None \<Rightarrow> []
             | Some fs \<Rightarrow> if fs \<noteq> [] then [(''opt_fields'', join '','' fs)] else [])
      in request net c (''/tasks/'' @ taskGid @ (if query \<noteq> [] then ''?'' @ query else []))
           no_options log)"

definition listProjectTasks ::
  "network \<Rightarrow> credentials \<Rightarrow> string \<Rightarrow> PaginationParams \<Rightarrow> fetch_request list
     \<Rightarrow> (thrown + jsval) \<times> fetch_request list" where
  "listProjectTasks net c projectGid params log =
     requestPaginated net c (''/projects/'' @ projectGid @ ''/tasks'') params log"

section \<open>Response formatter\<close>

datatype ResponseFormat = Json | Markdown

text \<open>The tool response \<open>{content: [{type: 'text', text}], isError}\<close>. \<open>isError = False\<close> is
  the response without the flag; a text \<open>None\<close> is \<open>undefined\<close>, which \<open>JSON.stringify\<close>
  returns on \<open>undefined\<close>.\<close>

record ToolResponse =
  content_text :: "string option"
  isError :: bool

definition newline :: string where
  "newline = [CHR 0x0A]"

definition to_upper :: "char \<Rightarrow> char" where
  "to_upper c =
     (if 97 \<le> (of_char c :: nat) \<and> (of_char c :: nat) \<le> 122 then char_of ((of_char c :: nat) - 32)
      else c)"

text \<open>\<open>str.charAt(0).toUpperCase() + str.slice(1)\<close> (ASCII letters; the model leaves any other
  code unit as it is).\<close>

definition capitalize :: "string \<Rightarrow> string" where
  "capitalize str = (case str of [] \<Rightarrow> [] | c # rest \<Rightarrow> to_upper c # rest)"

fun split_on :: "char \<Rightarrow> string \<Rightarrow> string list" where
  "split_on c [] = [[]]"
| "split_on c (x # xs) =
     (if x = c then [] # split_on c xs
      else (case split_on c xs of [] \<Rightarrow> [[x]] | y # ys \<Rightarrow> (x # y) # ys))"

definition formatKey :: "string \<Rightarrow> string" where
  "formatKey key = join '' '' (map capitalize (split_on CHR ''_'' key))"

text \<open>\<open>entityType.replace(/s$/, '')\<close>\<close>

definition strip_s :: "string \<Rightarrow> string" where
  "strip_s str = (if str \<noteq> [] \<and> last str = CHR ''s'' then butlast str else str)"

subsection \<open>Tables\<close>

text \<open>A template literal \<open>| ${a} | ${b} | ... |\<close>.\<close>

definition template_row :: "string list \<Rightarrow> string" where
  "template_row cs = ''| '' @ join '' | '' cs @ '' |''"

text \<open>\<open>for (const item of items) lines.push(row)\<close>: the loop stops at the first item whose row
  throws.\<close>

fun push_rows ::
  "(jsval \<Rightarrow> thrown + string) \<Rightarrow> jsval list \<Rightarrow> string list \<Rightarrow> thrown + string list" where
  "push_rows row [] lines = Inr lines"
| "push_rows row (item # items) lines =
     (case row item of Inl e \<Rightarrow> Inl e | Inr l \<Rightarrow> push_rows row items (lines @ [l]))"

text \<open>The row of an item whose properties the template reads: reading a property of
  \<open>null\<close> or \<open>undefined\<close> throws.\<close>

definition item_row :: "(jsval \<Rightarrow> string list) \<Rightarrow> jsval \<Rightarrow> thrown + string" where
  "item_row cells item = (if nullish item then Inl NULL_READ else Inr (template_row (cells item)))"

definition table :: "string \<Rightarrow> string \<Rightarrow> (jsval \<Rightarrow> string list) \<Rightarrow> jsval list \<Rightarrow> thrown + string" where
  "table header rule cells items =
     (case push_rows (item_row cells) items [header, rule] of
        Inl e \<Rightarrow> Inl e
      | Inr lines \<Rightarrow> Inr (join newline lines))"

definition dash :: jsval where
  "dash = JStr ''-''"

definition yes_no :: "jsval \<Rightarrow> string" where
  "yes_no v = (if truthy v then ''Yes'' else ''No'')"

definition task_cells :: "jsval \<Rightarrow> string list" where
  "task_cells task =
     [to_string (js_get task ''gid''),
      to_string (js_or (js_get task ''name'') dash),
      to_string (js_or (opt_get (js_get task ''assignee'') ''name'') dash),
      to_string (js_or (js_or (js_get task ''due_on'') (js_get task ''due_at'')) dash),
      yes_no (js_get task ''completed'')]"

definition formatTasksTable :: "jsval list \<Rightarrow> thrown + string" where
  "formatTasksTable tasks =
     table ''| GID | Name | Assignee | Due | Completed |'' ''|---|---|---|---|---|'' task_cells tasks"

definition project_cells :: "jsval \<Rightarrow> string list" where
  "project_cells project =
     [to_string (js_get project ''gid''),
      to_string (js_get project ''name''),
      to_string (js_or (opt_get (js_get project ''team'') ''name'') dash),
      yes_no (js_get project ''archived''),
      to_string (js_or (js_get project ''due_on'') dash)]"

definition formatProjectsTable :: "jsval list \<Rightarrow> thrown + string" where
  "formatProjectsTable projects =
     table ''| GID | Name | Team | Archived | Due |'' ''|---|---|---|---|---|'' project_cells projects"

definition workspace_cells :: "jsval \<Rightarrow> string list" where
  "workspace_cells ws =
     [to_string (js_get ws ''gid''), to_string (js_get ws ''name''),
      yes_no (js_get ws ''is_organization'')]"

definition formatWorkspacesTable :: "jsval list \<Rightarrow> thrown + string" where
  "formatWorkspacesTable workspaces =
     table ''| GID | Name | Organization |'' ''|---|---|---|'' workspace_cells workspaces"

definition team_cells :: "jsval \<Rightarrow> string list" where
  "team_cells team =
     [to_string (js_get team ''gid''), to_string (js_get team ''name''),
      to_string (js_or (js_get team ''visibility'') dash)]"

definition formatTeamsTable :: "jsval list \<Rightarrow> thrown + string" where
  "formatTeamsTable teams = table ''| GID | Name | Visibility |'' ''|---|---|---|'' team_cells teams"

definition user_cells :: "jsval \<Rightarrow> string list" where
  "user_cells user =
     [to_string (js_get user ''gid''), to_string (js_get user ''name''),
      to_string (js_or (js_get user ''email'') dash)]"

definition formatUsersTable :: "jsval list \<Rightarrow> thrown + string" where
  "formatUsersTable users = table ''| GID | Name | Email |'' ''|---|---|---|'' user_cells users"

definition tag_cells :: "jsval \<Rightarrow> string list" where
  "tag_cells tag =
     [to_string (js_get tag ''gid''), to_string (js_get tag ''name''),
      to_string (js_or (js_get tag ''color'') dash)]"

definition formatTagsTable :: "jsval list \<Rightarrow> thrown + string" where
  "formatTagsTable tags = table ''| GID | Name | Color |'' ''|---|---|---|'' tag_cells tags"

definition section_cells :: "jsval \<Rightarrow> string list" where
  "section_cells sec =
     [to_string (js_get sec ''gid''), to_string (js_get sec ''name''),
      to_string (js_or (opt_get (js_get sec ''project'') ''name'') dash)]"

definition formatSectionsTable :: "jsval list \<Rightarrow> thrown + string" where
  "formatSectionsTable sections =
     table ''| GID | Name | Project |'' ''|---|---|---|'' section_cells sections"

definition story_cells :: "jsval \<Rightarrow> string list" where
  "story_cells story =
     [to_string (js_get story ''gid''), to_string (js_get story ''resource_subtype''),
      to_string (js_or (opt_get (js_get story ''created_by'') ''name'') dash),
      to_string (js_or (js_get story ''created_at'') dash)]"

definition formatStoriesTable :: "jsval list \<Rightarrow> thrown + string" where
  "formatStoriesTable stories =
     table ''| GID | Type | Author | Created |'' ''|---|---|---|---|'' story_cells stories"

definition portfolio_cells :: "jsval \<Rightarrow> string list" where
  "portfolio_cells portfolio =
     [to_string (js_get portfolio ''gid''), to_string (js_get portfolio ''name''),
      to_string (js_or (opt_get (js_get portfolio ''owner'') ''name'') dash)]"

definition formatPortfoliosTable :: "jsval list \<Rightarrow> thrown + string" where
  "formatPortfoliosTable portfolios =
     table ''| GID | Name | Owner |'' ''|---|---|---|'' portfolio_cells portfolios"

definition goal_cells :: "jsval \<Rightarrow> string list" where
  "goal_cells goal =
     [to_string (js_get goal ''gid''), to_string (js_get goal ''name''),
      to_string (js_or (opt_get (js_get goal ''owner'') ''name'') dash),
      to_string (js_or (js_get goal ''status'') dash)]"

definition formatGoalsTable :: "jsval list \<Rightarrow> thrown + string" where
  "formatGoalsTable goals =
     table ''| GID | Name | Owner | Status |'' ''|---|---|---|---|'' goal_cells goals"

definition webhook_cells :: "jsval \<Rightarrow> string list" where
  "webhook_cells webhook =
     [to_string (js_get webhook ''gid''),
      to_string (js_or (js_get webhook ''target'') dash),
      yes_no (js_get webhook ''active''),
      to_string (js_or (js_or (opt_get (js_get webhook ''resource'') ''name'')
                              (opt_get (js_get webhook ''resource'') ''gid'')) dash)]"

definition formatWebhooksTable :: "jsval list \<Rightarrow> thrown + string" where
  "formatWebhooksTable webhooks =
     table ''| GID | Target | Active | Resource |'' ''|---|---|---|---|'' webhook_cells webhooks"

text \<open>
  The generic table reads the keys of the first item with \<open>Object.keys\<close> and each item at
  those keys, so here arrays and strings answer at their indices and at \<open>length\<close>.
\<close>

definition own_keys :: "jsval \<Rightarrow> string list" where
  "own_keys v =
     (case v of
        JObj kvs \<Rightarrow> map fst kvs
      | JArr xs \<Rightarrow> map digits10 [0 ..< length xs]
      | JStr s \<Rightarrow> map digits10 [0 ..< length s]
      | _ \<Rightarrow> [])"

definition js_read :: "jsval \<Rightarrow> string \<Rightarrow> jsval" where
  "js_read v k =
     (case v of
        JObj kvs \<Rightarrow> js_get v k
      | JArr xs \<Rightarrow>
          if k = ''length'' then JNum (int (length xs))
          else (case find (\<lambda>i. digits10 i = k) [0 ..< length xs] of
                  None \<Rightarrow> JUndefined | Some i \<Rightarrow> xs ! i)
      | JStr s \<Rightarrow>
          if k = ''length'' then JNum (int (length s))
          else (case find (\<lambda>i. digits10 i = k) [0 ..< length s] of
                  None \<Rightarrow> JUndefined | Some i \<Rightarrow> JStr [s ! i])
      | _ \<Rightarrow> JUndefined)"

text \<open>\<open>String(record[k] ?? '-')\<close>\<close>

definition generic_cell :: "jsval \<Rightarrow> string \<Rightarrow> string" where
  "generic_cell record k = (let v = js_read record k in to_string (if nullish v then dash else v))"

definition formatGenericTable :: "jsval list \<Rightarrow> thrown + string" where
  "formatGenericTable items =
     (case items of
        [] \<Rightarrow> Inr ''_No items_''
      | first # _ \<Rightarrow>
          if nullish first then Inl NULL_READ
          else
            (let keys = take 5 (own_keys first);
                 lines = [template_row keys, ''|'' @ join ''|'' (map (\<lambda>k. ''---'') keys) @ ''|'']
             in case push_rows
                       (\<lambda>item. if nullish item \<and> keys \<noteq> [] then Inl NULL_READ
                                else Inr (template_row (map (generic_cell item) keys)))
                       items lines of
                  Inl e \<Rightarrow> Inl e
                | Inr ls \<Rightarrow> Inr (join newline ls)))"

subsection \<open>Markdown\<close>

text \<open>The formatter receives \<open>data.data\<close> and \<open>data.nextPage\<close> of the paginated response.
  \<open>page_heading\<close> is the lines it pushes before the table: the heading, the count and, when
  there is a next page, its offset.\<close>

definition page_heading :: "jsval list \<Rightarrow> jsval \<Rightarrow> string \<Rightarrow> string list" where
  "page_heading items nextPage entityType =
     [''## '' @ capitalize entityType,
      [],
      ''**Showing:** '' @ show_int (int (length items)) @ '' items'']
     @ (if truthy nextPage then
          [''**More available:** Yes (offset: `'' @ to_string (js_get nextPage ''offset'') @ ''`)'']
        else [])
     @ [[]]"

text \<open>The \<open>switch (entityType)\<close> that picks the table of the items.\<close>

definition entity_table :: "string \<Rightarrow> jsval list \<Rightarrow> thrown + string" where
  "entity_table entityType items =
     (if entityType = ''tasks'' then formatTasksTable items
      else if entityType = ''projects'' then formatProjectsTable items
      else if entityType = ''workspaces'' then formatWorkspacesTable items
      else if entityType = ''teams'' then formatTeamsTable items
      else if entityType = ''users'' then formatUsersTable items
      else if entityType = ''tags'' then formatTagsTable items
      else if entityType = ''sections'' then formatSectionsTable items
      else if entityType = ''stories'' then formatStoriesTable items
      else if entityType = ''portfolios'' then formatPortfoliosTable items
      else if entityType = ''goals'' then formatGoalsTable items
      else if entityType = ''webhooks'' then formatWebhooksTable items
      else formatGenericTable items)"

definition formatPaginatedAsMarkdown :: "jsval list \<Rightarrow> jsval \<Rightarrow> string \<Rightarrow> thrown + string" where
  "formatPaginatedAsMarkdown items nextPage entityType =
     (let lines = page_heading items nextPage entityType
      in if length items = 0 then Inr (join newline (lines @ [''_No items found._'']))
         else
           (case entity_table entityType items of
              Inl e \<Rightarrow> Inl e
            | Inr t \<Rightarrow> Inr (join newline (lines @ [t]))))"

definition formatArrayAsMarkdown :: "jsval list \<Rightarrow> string \<Rightarrow> thrown + string" where
  "formatArrayAsMarkdown data entityType = formatPaginatedAsMarkdown data JUndefined entityType"

definition is_object :: "jsval \<Rightarrow> bool" where
  "is_object v = (case v of JArr xs \<Rightarrow> True | JObj kvs \<Rightarrow> True | _ \<Rightarrow> False)"

definition entry_lines :: "string \<times> jsval \<Rightarrow> string list" where
  "entry_lines kv =
     (let key = fst kv; val = snd kv in
      if nullish val then []
      else if is_object val then
        [''**'' @ formatKey key @ '':**'',
         ''```json'',
         (case stringify 2 val of None \<Rightarrow> [] | Some s \<Rightarrow> s),
         ''```'']
      else [''**'' @ formatKey key @ '':** '' @ to_string val])"

definition formatObjectAsMarkdown :: "(string \<times> jsval) list \<Rightarrow> string \<Rightarrow> string" where
  "formatObjectAsMarkdown data entityType =
     join newline ([''## '' @ capitalize (strip_s entityType), []] @ concat (map entry_lines data))"

definition is_array :: "jsval \<Rightarrow> bool" where
  "is_array v = (case v of JArr xs \<Rightarrow> True | _ \<Rightarrow> False)"

definition array_items :: "jsval \<Rightarrow> jsval list" where
  "array_items v = (case v of JArr xs \<Rightarrow> xs | _ \<Rightarrow> [])"

definition object_entries :: "jsval \<Rightarrow> (string \<times> jsval) list" where
  "object_entries v = (case v of JObj kvs \<Rightarrow> kvs | _ \<Rightarrow> [])"

text \<open>\<open>typeof data === 'object' && data !== null && 'data' in data && Array.isArray(data.data)\<close>\<close>

definition isPaginatedResponse :: "jsval \<Rightarrow> bool" where
  "isPaginatedResponse data =
     (is_object data \<and> ''data'' \<in> set (map fst (object_entries data))
      \<and> is_array (js_get data ''data''))"

definition formatAsMarkdown :: "jsval \<Rightarrow> string \<Rightarrow> thrown + string" where
  "formatAsMarkdown data entityType =
     (if isPaginatedResponse data then
        formatPaginatedAsMarkdown (array_items (js_get data ''data'')) (js_get data ''nextPage'')
          entityType
      else if is_array data then formatArrayAsMarkdown (array_items data) entityType
      else if is_object data then Inr (formatObjectAsMarkdown (object_entries data) entityType)
      else Inr (to_string data))"

definition formatResponse :: "jsval \<Rightarrow> ResponseFormat \<Rightarrow> string \<Rightarrow> thrown + ToolResponse" where
  "formatResponse data format entityType =
     (if format = Markdown then
        (case formatAsMarkdown data entityType of
           Inl e \<Rightarrow> Inl e
         | Inr t \<Rightarrow> Inr \<lparr>content_text = Some t, isError = False\<rparr>)
      else Inr \<lparr>content_text = stringify 2 data, isError = False\<rparr>)"

text \<open>\<open>String(error)\<close> of a thrown value that is not an \<open>Error\<close>.\<close>

fun thrown_string :: "thrown \<Rightarrow> string" where
  "thrown_string (Thrown v) = to_string v"
| "thrown_string e = ''Error: '' @ message_of e"

text \<open>
  \<open>formatErrorForLogging\<close> is a helper of the missing \<open>utils/errors.ts\<close>; the formatter only
  stores its result under \<open>details\<close>, so it is a parameter here.
\<close>

definition formatError :: "(thrown \<Rightarrow> jsval) \<Rightarrow> thrown \<Rightarrow> ToolResponse" where
  "formatError formatErrorForLogging error =
     (let errorInfo = formatErrorForLogging error;
          message =
            (if instanceof_AsanaApiError error then
               ''Error: '' @ message_of error @ (if retryable error then '' (retryable)'' else [])
             else if instanceof_Error error then ''Error: '' @ message_of error
             else ''Error: '' @ thrown_string error)
      in \<lparr>content_text = stringify 2 (JObj [(''error'', JStr message), (''details'', errorInfo)]),
          isError = True\<rparr>)"

section \<open>Tool handlers\<close>

text \<open>
  The arguments of \<open>asana_create_task\<close> after schema validation: \<open>name\<close> is required, every
  other argument is optional (\<open>None\<close> is \<open>undefined\<close>). \<open>notes_text\<close> is the argument \<open>notes\<close>.
\<close>

record CreateTaskArgs =
  name :: string
  workspace :: "string option"
  projects :: "string list option"
  assignee :: "string option"
  dueOn :: "string option"
  dueAt :: "string option"
  startOn :: "string option"
  notes_text :: "string option"
  htmlNotes :: "string option"
  completed :: "bool option"
  tags :: "string list option"
  parent :: "string option"
  resourceSubtype :: "string option"

definition opt_str :: "string option \<Rightarrow> jsval" where
  "opt_str s = (case s of None \<Rightarrow> JUndefined | Some x \<Rightarrow> JStr x)"

definition opt_strs :: "string list option \<Rightarrow> jsval" where
  "opt_strs s = (case s of None \<Rightarrow> JUndefined | Some xs \<Rightarrow> JArr (map JStr xs))"

definition opt_bool :: "bool option \<Rightarrow> jsval" where
  "opt_bool s = (case s of None \<Rightarrow> JUndefined | Some b \<Rightarrow> JBool b)"

text \<open>The object literal the handler passes to \<open>client.createTask\<close>.\<close>

definition create_task_input :: "CreateTaskArgs \<Rightarrow> jsval" where
  "create_task_input args =
     JObj [(''name'', JStr (name args)),
           (''workspace'', opt_str (workspace args)),
           (''projects'', opt_strs (projects args)),
           (''assignee'', opt_str (assignee args)),
           (''due_on'', opt_str (dueOn args)),
           (''due_at'', opt_str (dueAt args)),
           (''start_on'', opt_str (startOn args)),
           (''notes'', opt_str (notes_text args)),
           (''html_notes'', opt_str (htmlNotes args)),
           (''completed'', opt_bool (completed args)),
           (''tags'', opt_strs (tags args)),
           (''parent'', opt_str (parent args)),
           (''resource_subtype'', opt_str (resourceSubtype args))]"

definition asana_create_task ::
  "(thrown \<Rightarrow> jsval) \<Rightarrow> network \<Rightarrow> credentials \<Rightarrow> CreateTaskArgs \<Rightarrow> fetch_request list
     \<Rightarrow> ToolResponse \<times> fetch_request list" where
  "asana_create_task formatErrorForLogging net c args log =
     (case createTask net c (create_task_input args) log of
        (Inl error, log') \<Rightarrow> (formatError formatErrorForLogging error, log')
      | (Inr task, log') \<Rightarrow>
          (\<lparr>content_text = stringify 2
               (JObj [(''success'', JBool True), (''message'', JStr ''Task created''),
                      (''task'', task)]),
            isError = False\<rparr>, log'))"

definition asana_get_task ::
  "(thrown \<Rightarrow> jsval) \<Rightarrow> network \<Rightarrow> credentials \<Rightarrow> string \<Rightarrow> string list option
     \<Rightarrow> ResponseFormat \<Rightarrow> fetch_request list \<Rightarrow> ToolResponse \<times> fetch_request list" where
  "asana_get_task formatErrorForLogging net c taskGid optFields format log =
     (case getTask net c taskGid optFields log of
        (Inl error, log') \<Rightarrow> (formatError formatErrorForLogging error, log')
      | (Inr task, log') \<Rightarrow>
          (case formatResponse task format ''task'' of
             Inl error \<Rightarrow> (formatError formatErrorForLogging error, log')
           | Inr r \<Rightarrow> (r, log')))"

definition asana_list_project_tasks ::
  "(thrown \<Rightarrow> jsval) \<Rightarrow> network \<Rightarrow> credentials \<Rightarrow> string \<Rightarrow> PaginationParams
     \<Rightarrow> ResponseFormat \<Rightarrow> fetch_request list \<Rightarrow> ToolResponse \<times> fetch_request list" where
  "asana_list_project_tasks formatErrorForLogging net c projectGid params format log =
     (case listProjectTasks net c projectGid params log of
        (Inl error, log') \<Rightarrow> (formatError formatErrorForLogging error, log')
      | (Inr result, log') \<Rightarrow>
          (case formatResponse result format ''tasks'' of
             Inl error \<Rightarrow> (formatError formatErrorForLogging error, log')
           | Inr r \<Rightarrow> (r, log')))"

text \<open>The connection test is registered by the entry point, with a \<open>catch\<close> of its own.\<close>

definition asana_test_connection ::
  "network \<Rightarrow> credentials \<Rightarrow> fetch_request list \<Rightarrow> ToolResponse \<times> fetch_request list" where
  "asana_test_connection net c log =
     (case testConnection net c log of
        (Inl error, log') \<Rightarrow>
          (\<lparr>content_text = Some (''Connection failed: ''
               @ (if instanceof_Error error then message_of error else ''Unknown error'')),
            isError = True\<rparr>, log')
      | (Inr result, log') \<Rightarrow> (\<lparr>content_text = stringify 2 result, isError = False\<rparr>, log'))"

section \<open>Sample collaborators\<close>

text \<open>A handler of the MCP library that calls the Asana API once, with the tenant's token.\<close>

definition calling_handler :: mcp_handler where
  "calling_handler c rq log =
     (health_response,
      log @ [\<lparr>fetch_url = API_BASE_URL @ ''/users/me'', fetch_method = None,
               fetch_headers = [(''Authorization'', ''Bearer '' @ accessToken c)],
               fetch_body = None\<rparr>])"

text \<open>A network on which every call gets the same response.\<close>

definition answering :: "upstream \<Rightarrow> network" where
  "answering r call = Inr r"

definition TOKEN :: credentials where
  "TOKEN = \<lparr>accessToken = ''tok''\<rparr>"

definition TOKEN_HEADERS :: "(string \<times> string) list" where
  "TOKEN_HEADERS =
     [(''Authorization'', ''Bearer tok''), (''Content-Type'', ''application/json''),
      (''Accept'', ''application/json'')]"

definition NO_TOKEN :: credentials where
  "NO_TOKEN = \<lparr>accessToken = []\<rparr>"

text \<open>Responses of the Asana API used as examples.\<close>

definition OK_USER :: upstream where
  "OK_USER = \<lparr>up_status = 200, up_headers = Map.empty,
     up_json = Some (JObj [(''data'', JObj [(''gid'', JStr ''7''), (''name'', JStr ''Ada'')])])\<rparr>"

definition RATE_LIMITED_DATE :: upstream where
  "RATE_LIMITED_DATE = \<lparr>up_status = 429,
     up_headers = [''Retry-After'' \<mapsto> ''Wed, 21 Oct 2015 07:28:00 GMT''], up_json = None\<rparr>"

definition RATE_LIMITED_30 :: upstream where
  "RATE_LIMITED_30 =
     \<lparr>up_status = 429, up_headers = [''Retry-After'' \<mapsto> ''30''], up_json = None\<rparr>"

definition NOT_FOUND :: upstream where
  "NOT_FOUND = \<lparr>up_status = 404, up_headers = Map.empty, up_json = None\<rparr>"

definition UPSTREAM_401 :: upstream where
  "UPSTREAM_401 = \<lparr>up_status = 401, up_headers = Map.empty, up_json = None\<rparr>"

definition NO_CONTENT :: upstream where
  "NO_CONTENT = \<lparr>up_status = 204, up_headers = Map.empty, up_json = None\<rparr>"

definition TASK_12345 :: jsval where
  "TASK_12345 =
     JObj [(''gid'', JStr ''12345''), (''name'', JStr ''Ship spec''), (''assignee'', JNull),
           (''tags'', JArr [])]"

definition OK_TASK :: upstream where
  "OK_TASK =
     \<lparr>up_status = 200, up_headers = Map.empty, up_json = Some (JObj [(''data'', TASK_12345)])\<rparr>"

definition NULL_ITEMS :: upstream where
  "NULL_ITEMS =
     \<lparr>up_status = 200, up_headers = Map.empty, up_json = Some (JObj [(''data'', JArr [JNull])])\<rparr>"






definition NO_PARAMS :: PaginationParams where
  "NO_PARAMS = \<lparr>limit = None, offset = None\<rparr>"




text \<open>The arguments \<open>{name: "Ship spec", workspace: "999"}\<close> and a response to the creation.\<close>

definition SHIP_SPEC :: CreateTaskArgs where
  "SHIP_SPEC =
     \<lparr>name = ''Ship spec'', workspace = Some ''999'', projects = None, assignee = None,
      dueOn = None, dueAt = None, startOn = None, notes_text = None, htmlNotes = None,
      completed = None, tags = None, parent = None, resourceSubtype = None\<rparr>"

definition CREATED_TASK :: jsval where
  "CREATED_TASK =
     JObj [(''gid'', JStr ''1''), (''name'', JStr ''Ship spec''), (''resource_type'', JStr ''task'')]"

definition CREATED :: upstream where
  "CREATED =
     \<lparr>up_status = 201, up_headers = Map.empty, up_json = Some (JObj [(''data'', CREATED_TASK)])\<rparr>"

text \<open>A logging helper that records the message of the error.\<close>

definition MESSAGE_DETAILS :: "thrown \<Rightarrow> jsval" where
  "MESSAGE_DETAILS e = JObj [(''message'', JStr (message_of e))]"

section \<open>Properties of the transport\<close>

declare join.simps [simp del]

lemma unauthorized_body:
  \<open>body (unauthorized_response (Error ''Missing credentials. Provide X-Asana-Access-Token header with your Asana Personal Access Token.'')) =
     Some ''{"error":"Unauthorized","message":"Missing credentials. Provide X-Asana-Access-Token header with your Asana Personal Access Token.","required_headers":["X-Asana-Access-Token"]}''\<close>
  by code_simp


lemma empty_token:
  "(headers rq ''X-Asana-Access-Token'' = None \<or> headers rq ''X-Asana-Access-Token'' = Some [])
     = (accessToken (parseTenantCredentials rq) = [])"
  by (auto simp: parseTenantCredentials_def split: option.splits)


text \<open>
  C1. A \<open>POST /mcp\<close> whose \<open>X-Asana-Access-Token\<close> header is missing or empty is answered with
  status 401 and the JSON body \<open>{error, message, required_headers: ["X-Asana-Access-Token"]}\<close>,
  whatever the MCP handler would do, and the log of outbound Asana calls is left as it was:
  no call is made during the request.
\<close>

theorem missing_token_unauthorized:
  assumes "url_pathname rq = ''/mcp''" and "http_method rq = ''POST''"
    and "headers rq ''X-Asana-Access-Token'' = None \<or> headers rq ''X-Asana-Access-Token'' = Some []"
  shows \<open>fetch handler rq log =
     (\<lparr>status = 401, response_headers = [(''Content-Type'', ''application/json'')],
       body = Some ''{"error":"Unauthorized","message":"Missing credentials. Provide X-Asana-Access-Token header with your Asana Personal Access Token.","required_headers":["X-Asana-Access-Token"]}''\<rparr>,
      log)\<close>
proof -
  have "accessToken (parseTenantCredentials rq) = []"
    using assms(3) by (simp add: empty_token)
  then have "fetch handler rq log =
      (unauthorized_response (Error ''Missing credentials. Provide X-Asana-Access-Token header with your Asana Personal Access Token.''), log)"
    using assms(1,2) by (simp add: fetch_def validateCredentials_def)
  then show ?thesis
    using unauthorized_body by (simp add: unauthorized_response_def json_headers_def)
qed

theorem missing_token_unauthorized_witness:
  \<open>fetch calling_handler
      \<lparr>url_pathname = ''/mcp'', http_method = ''POST'', headers = Map.empty, request_body = ''{}''\<rparr> [] =
     (\<lparr>status = 401, response_headers = [(''Content-Type'', ''application/json'')],
       body = Some ''{"error":"Unauthorized","message":"Missing credentials. Provide X-Asana-Access-Token header with your Asana Personal Access Token.","required_headers":["X-Asana-Access-Token"]}''\<rparr>,
      [])
   \<and> fetch calling_handler
      \<lparr>url_pathname = ''/mcp'', http_method = ''POST'',
       headers = [''X-Asana-Access-Token'' \<mapsto> []], request_body = ''{}''\<rparr> [] =
     (\<lparr>status = 401, response_headers = [(''Content-Type'', ''application/json'')],
       body = Some ''{"error":"Unauthorized","message":"Missing credentials. Provide X-Asana-Access-Token header with your Asana Personal Access Token.","required_headers":["X-Asana-Access-Token"]}''\<rparr>,
      [])\<close>
  using
    missing_token_unauthorized [of
      "\<lparr>url_pathname = ''/mcp'', http_method = ''POST'', headers = Map.empty, request_body = ''{}''\<rparr>"
      calling_handler "[]"]
    missing_token_unauthorized [of
      "\<lparr>url_pathname = ''/mcp'', http_method = ''POST'',
        headers = [''X-Asana-Access-Token'' \<mapsto> []], request_body = ''{}''\<rparr>"
      calling_handler "[]"]
  by simp



section \<open>The client: credentials\<close>

lemma token_headers: "getAuthHeaders TOKEN = Inr TOKEN_HEADERS"
  by (simp add: getAuthHeaders_def TOKEN_def TOKEN_HEADERS_def)

lemma answering_call: "answering r call = Inr r"
  by (simp add: answering_def)

lemma no_token_no_headers:
  "accessToken c = [] \<Longrightarrow>
     getAuthHeaders c =
       Inl (AuthenticationError ''No access token provided. Include X-Asana-Access-Token header.'')"
  by (simp add: getAuthHeaders_def)

text \<open>
  C10, as amended. With an empty access token both request paths fail with the
  \<open>AuthenticationError\<close> of the header construction and leave the log of outbound calls as it
  was, whatever the network would answer; so do the resource methods built on them (here
  \<open>getMe\<close>, \<open>createTask\<close>, \<open>getTask\<close>, \<open>listProjectTasks\<close>). \<open>testConnection\<close> catches that
  error: it returns \<open>{connected: false, message}\<close> with the error's message, also without any
  outbound call.
\<close>

theorem empty_token_never_fetches:
  assumes "accessToken c = []"
  shows "request net c endpoint options log =
           (Inl (AuthenticationError ''No access token provided. Include X-Asana-Access-Token header.''), log)
       \<and> requestPaginated net c endpoint params log =
           (Inl (AuthenticationError ''No access token provided. Include X-Asana-Access-Token header.''), log)
       \<and> getMe net c log =
           (Inl (AuthenticationError ''No access token provided. Include X-Asana-Access-Token header.''), log)
       \<and> createTask net c data log =
           (Inl (AuthenticationError ''No access token provided. Include X-Asana-Access-Token header.''), log)
       \<and> getTask net c taskGid optFields log =
           (Inl (AuthenticationError ''No access token provided. Include X-Asana-Access-Token header.''), log)
       \<and> listProjectTasks net c projectGid params log =
           (Inl (AuthenticationError ''No access token provided. Include X-Asana-Access-Token header.''), log)
       \<and> testConnection net c log =
           (Inr (JObj [(''connected'', JBool False),
                       (''message'', JStr ''No access token provided. Include X-Asana-Access-Token header.'')]),
            log)"
  using assms
  by (simp add: request_def requestPaginated_def createTask_def getTask_def listProjectTasks_def
      getMe_def testConnection_def no_token_no_headers)

theorem empty_token_never_fetches_witness:
  "request (answering OK_USER) NO_TOKEN ''/users/me'' no_options [] =
     (Inl (AuthenticationError ''No access token provided. Include X-Asana-Access-Token header.''), [])
   \<and> requestPaginated (answering OK_USER) NO_TOKEN ''/projects/1/tasks'' NO_PARAMS [] =
     (Inl (AuthenticationError ''No access token provided. Include X-Asana-Access-Token header.''), [])"
  using empty_token_never_fetches [where c = NO_TOKEN and net = "answering OK_USER"
      and endpoint = "''/users/me''" and options = no_options and log = "[]"]
    empty_token_never_fetches [where c = NO_TOKEN and net = "answering OK_USER"
      and endpoint = "''/projects/1/tasks''" and params = NO_PARAMS and log = "[]"]
  by (simp add: NO_TOKEN_def)

text \<open>
  C10 as stated fails at \<open>testConnection\<close>, an operation of the client: with an empty token
  it does not fail, it returns a value.
\<close>

theorem testConnection_returns:
  "\<not> isl (fst (testConnection (answering OK_USER) NO_TOKEN []))
   \<and> testConnection (answering OK_USER) NO_TOKEN [] =
     (Inr (JObj [(''connected'', JBool False),
                 (''message'', JStr ''No access token provided. Include X-Asana-Access-Token header.'')]),
      [])"
  by (simp add: testConnection_def getMe_def request_def getAuthHeaders_def NO_TOKEN_def)

section \<open>The client: classification of the response\<close>


lemma parseInt_date: "parseInt ''Wed, 21 Oct 2015 07:28:00 GMT'' = JNaN"
  by code_simp

text \<open>On a 429 both paths throw the rate-limit error with \<open>retry_after\<close> of the response.\<close>

lemma rate_limit_hint:
  assumes "getAuthHeaders c = Inr auth" and "up_status r = 429"
  shows "net (request_call endpoint options auth) = Inr r \<Longrightarrow>
           fst (request net c endpoint options log) =
             Inl (RateLimitError ''Rate limit exceeded'' (retry_after r))"
    and "net (paginated_call endpoint params auth) = Inr r \<Longrightarrow>
           fst (requestPaginated net c endpoint params log) =
             Inl (RateLimitError ''Rate limit exceeded'' (retry_after r))"
  using assms by (simp_all add: request_def requestPaginated_def)

text \<open>The hint is 60 without the header, and the number written when the header is a run of
  decimal digits.\<close>

lemma retry_after_absent: "up_headers r ''Retry-After'' = None \<Longrightarrow> retry_after r = JNum 60"
  by (simp add: retry_after_def)

lemma retry_after_digits:
  assumes "up_headers r ''Retry-After'' = Some ds" and "ds \<noteq> []" and "\<forall>d \<in> set ds. is_digit d"
  shows "retry_after r = JNum (int (digits_value ds))"
proof -
  have "\<not> is_space (hd ds)"
    using assms(2,3) by (cases ds) (auto simp: is_digit_def is_space_def)
  then have dw: "dropWhile is_space ds = ds"
    using assms(2) by (cases ds) auto
  have sign: "hd ds \<noteq> CHR ''-''" "hd ds \<noteq> CHR ''+''"
    using assms(2,3) by (cases ds; auto simp: is_digit_def)+
  have tw: "takeWhile is_digit ds = ds"
    using assms(3) by (simp add: takeWhile_eq_all_conv)
  show ?thesis
    using assms(1,2) by (simp add: retry_after_def parseInt_def dw sign tw Let_def)
qed

lemma retry_after_30: "retry_after RATE_LIMITED_30 = JNum 30"
  by code_simp

text \<open>
  C2. The claim holds for a missing header and for an integer, and fails for a header that is
  present and not a number: \<open>parseInt\<close> returns \<open>NaN\<close> and the code passes it on, on both
  paths. Here the header is an HTTP date, a form \<open>Retry-After\<close> may take.
\<close>

theorem invalid_retry_after_is_NaN:
  "fst (request (answering RATE_LIMITED_DATE) TOKEN ''/tasks/12345'' no_options []) =
     Inl (RateLimitError ''Rate limit exceeded'' JNaN)
   \<and> fst (requestPaginated (answering RATE_LIMITED_DATE) TOKEN ''/projects/1/tasks'' NO_PARAMS []) =
     Inl (RateLimitError ''Rate limit exceeded'' JNaN)
   \<and> wait_hint (RateLimitError ''Rate limit exceeded'' JNaN) \<noteq> JNum 60"
  by (simp add: request_def requestPaginated_def token_headers answering_def RATE_LIMITED_DATE_def
      retry_after_def parseInt_date)

text \<open>On a 404 the single-resource path throws the not-found error with the resource and the
  endpoint, and a tool built on it returns that error in its envelope.\<close>

lemma single_404_not_found:
  assumes "getAuthHeaders c = Inr auth" and "net (request_call endpoint options auth) = Inr r"
    and "up_status r = 404"
  shows "request net c endpoint options log =
           (Inl (NotFoundError ''Resource'' endpoint), log @ [request_call endpoint options auth])"
  using assms by (simp add: request_def)

lemma get_task_404_envelope:
  "fst (asana_get_task L (answering NOT_FOUND) TOKEN ''12345'' None Json []) =
     formatError L (NotFoundError ''Resource'' ''/tasks/12345'')
   \<and> isError (formatError L (NotFoundError ''Resource'' ''/tasks/12345''))"
  by (simp add: asana_get_task_def getTask_def query_string_def join.simps
      single_404_not_found [OF token_headers answering_call] NOT_FOUND_def formatError_def)

text \<open>
  C3. The paginated path has no branch for 404: the response falls to the generic branch
  and the call fails with a plain \<open>AsanaApiError\<close> of status 404, whose message is the
  default one and names neither the resource nor the path. The list tool returns that
  error in its envelope.
\<close>

theorem paginated_404_is_generic:
  "requestPaginated (answering NOT_FOUND) TOKEN ''/projects/1/tasks'' NO_PARAMS [] =
     (Inl (AsanaApiError (JStr ''Asana API error: 404'') 404),
      [\<lparr>fetch_url = ''https://app.asana.com/api/1.0/projects/1/tasks'', fetch_method = None,
        fetch_headers = TOKEN_HEADERS, fetch_body = None\<rparr>])
   \<and> fst (asana_list_project_tasks MESSAGE_DETAILS (answering NOT_FOUND) TOKEN ''1'' NO_PARAMS Json []) =
     formatError MESSAGE_DETAILS (AsanaApiError (JStr ''Asana API error: 404'') 404)
   \<and> message_of (AsanaApiError (JStr ''Asana API error: 404'') 404) = ''Asana API error: 404''"
  by code_simp

section \<open>The client: successful responses\<close>

text \<open>
  C4. On the single-resource path a 204 gives the empty result \<open>undefined\<close>; any other 2xx
  response whose body is an envelope \<open>{data: v, ...}\<close> gives exactly \<open>v\<close>, and the JSON mode
  of the formatter prints that \<open>v\<close> with \<open>JSON.stringify(v, null, 2)\<close>.
\<close>

theorem single_resource_unwraps:
  assumes "getAuthHeaders c = Inr auth"
    and "net (request_call endpoint options auth) = Inr r"
  shows "(up_status r = 204 \<longrightarrow>
            request net c endpoint options log =
              (Inr JUndefined, log @ [request_call endpoint options auth]))
       \<and> (ok r \<and> up_status r \<noteq> 204 \<and> up_json r = Some (JObj kvs) \<and> map_of kvs ''data'' = Some v \<longrightarrow>
            request net c endpoint options log =
              (Inr v, log @ [request_call endpoint options auth])
            \<and> formatResponse v Json entityType =
                Inr \<lparr>content_text = stringify 2 v, isError = False\<rparr>)"
  using assms by (auto simp: request_def ok_def nullish_def formatResponse_def)

theorem single_resource_unwraps_witness:
  \<open>fst (request (answering NO_CONTENT) TOKEN ''/tasks/12345'' no_options []) = Inr JUndefined
   \<and> fst (request (answering OK_TASK) TOKEN ''/tasks/12345'' no_options []) = Inr TASK_12345
   \<and> formatResponse TASK_12345 Json ''task'' =
       Inr \<lparr>content_text = Some
              (''{'' @ newline @
               ''  "gid": "12345",'' @ newline @
               ''  "name": "Ship spec",'' @ newline @
               ''  "assignee": null,'' @ newline @
               ''  "tags": []'' @ newline @
               ''}''),
            isError = False\<rparr>\<close>
proof -
  have a: "fst (request (answering NO_CONTENT) TOKEN ''/tasks/12345'' no_options []) = Inr JUndefined"
    using single_resource_unwraps [where net = "answering NO_CONTENT" and r = NO_CONTENT
        and endpoint = "''/tasks/12345''" and options = no_options and log = "[]",
        OF token_headers answering_call]
    by (simp add: NO_CONTENT_def)
  have b: "fst (request (answering OK_TASK) TOKEN ''/tasks/12345'' no_options []) = Inr TASK_12345
      \<and> formatResponse TASK_12345 Json ''task'' =
          Inr \<lparr>content_text = stringify 2 TASK_12345, isError = False\<rparr>"
    using single_resource_unwraps [where net = "answering OK_TASK" and r = OK_TASK
        and kvs = "[(''data'', TASK_12345)]" and v = TASK_12345 and endpoint = "''/tasks/12345''"
        and options = no_options and log = "[]" and entityType = "''task''",
        OF token_headers answering_call]
    by (simp add: OK_TASK_def ok_def)
  have c: \<open>stringify 2 TASK_12345 = Some
              (''{'' @ newline @
               ''  "gid": "12345",'' @ newline @
               ''  "name": "Ship spec",'' @ newline @
               ''  "assignee": null,'' @ newline @
               ''  "tags": []'' @ newline @
               ''}'')\<close>
    by code_simp
  show ?thesis
    using a b c by simp
qed

section \<open>Properties of the tables\<close>












section \<open>Pagination\<close>








section \<open>The task table\<close>




section \<open>Properties of the tool handlers\<close>

lemma ship_spec_body:
  \<open>stringify 0 (JObj [(''data'', create_task_input SHIP_SPEC)]) =
     Some ''{"data":{"name":"Ship spec","workspace":"999"}}''\<close>
  by code_simp

text \<open>
  C8. \<open>asana_create_task\<close> called with exactly \<open>{name: "Ship spec", workspace: "999"}\<close> makes
  one outbound call, \<open>POST /tasks\<close> with the bearer token and the body
  \<open>{"data":{"name":"Ship spec","workspace":"999"}}\<close> (the arguments left out are not
  serialised); when that call is answered 201 with \<open>{data: task}\<close> the tool returns the
  text of \<open>{success: true, message: "Task created", task}\<close>, without the error flag.
\<close>

theorem create_task_scenario:
  assumes "accessToken c \<noteq> []"
    and \<open>net \<lparr>fetch_url = ''https://app.asana.com/api/1.0/tasks'', fetch_method = Some ''POST'',
               fetch_headers = [(''Authorization'', ''Bearer '' @ accessToken c),
                                (''Content-Type'', ''application/json''),
                                (''Accept'', ''application/json'')],
               fetch_body = Some ''{"data":{"name":"Ship spec","workspace":"999"}}''\<rparr> = Inr r\<close>
    and "up_status r = 201" and "up_json r = Some (JObj [(''data'', task)])"
  shows \<open>asana_create_task formatErrorForLogging net c SHIP_SPEC log =
     (\<lparr>content_text = stringify 2
         (JObj [(''success'', JBool True), (''message'', JStr ''Task created''), (''task'', task)]),
       isError = False\<rparr>,
      log @ [\<lparr>fetch_url = ''https://app.asana.com/api/1.0/tasks'', fetch_method = Some ''POST'',
               fetch_headers = [(''Authorization'', ''Bearer '' @ accessToken c),
                                (''Content-Type'', ''application/json''),
                                (''Accept'', ''application/json'')],
               fetch_body = Some ''{"data":{"name":"Ship spec","workspace":"999"}}''\<rparr>])\<close>
  using assms
  by (simp add: asana_create_task_def createTask_def request_def getAuthHeaders_def
      request_call_def ship_spec_body API_BASE_URL_def spread_def ok_def nullish_def)

theorem create_task_scenario_witness:
  \<open>asana_create_task MESSAGE_DETAILS (answering CREATED) TOKEN SHIP_SPEC [] =
     (\<lparr>content_text = Some
         (''{'' @ newline @
          ''  "success": true,'' @ newline @
          ''  "message": "Task created",'' @ newline @
          ''  "task": {'' @ newline @
          ''    "gid": "1",'' @ newline @
          ''    "name": "Ship spec",'' @ newline @
          ''    "resource_type": "task"'' @ newline @
          ''  }'' @ newline @
          ''}''),
       isError = False\<rparr>,
      [\<lparr>fetch_url = ''https://app.asana.com/api/1.0/tasks'', fetch_method = Some ''POST'',
        fetch_headers = [(''Authorization'', ''Bearer tok''),
                         (''Content-Type'', ''application/json''),
                         (''Accept'', ''application/json'')],
        fetch_body = Some ''{"data":{"name":"Ship spec","workspace":"999"}}''\<rparr>])\<close>
proof -
  have t: \<open>stringify 2
      (JObj [(''success'', JBool True), (''message'', JStr ''Task created''),
             (''task'', CREATED_TASK)]) =
     Some (''{'' @ newline @
          ''  "success": true,'' @ newline @
          ''  "message": "Task created",'' @ newline @
          ''  "task": {'' @ newline @
          ''    "gid": "1",'' @ newline @
          ''    "name": "Ship spec",'' @ newline @
          ''    "resource_type": "task"'' @ newline @
          ''  }'' @ newline @
          ''}'')\<close>
    by code_simp
  show ?thesis
    using create_task_scenario [where c = TOKEN and net = "answering CREATED" and r = CREATED
        and task = CREATED_TASK and log = "[]" and formatErrorForLogging = MESSAGE_DETAILS]
    by (simp add: t TOKEN_def answering_def CREATED_def)
qed

lemma formatError_shape:
  "formatError L e =
     \<lparr>content_text = stringify 2
        (JObj [(''error'', JStr (''Error: ''
                  @ (if instanceof_Error e then message_of e else thrown_string e)
                  @ (if instanceof_AsanaApiError e \<and> retryable e then '' (retryable)'' else []))),
               (''details'', L e)]),
      isError = True\<rparr>"
  by (cases e) (simp_all add: formatError_def)

text \<open>
  C7, as amended. In the handlers of the resource tools (here \<open>asana_create_task\<close>,
  \<open>asana_get_task\<close>, \<open>asana_list_project_tasks\<close>) whatever the client call or the formatter
  throws is returned as the response \<open>formatError\<close> builds, with the log the call left: the
  text of the JSON object \<open>{error, details}\<close> (always a string), flagged \<open>isError\<close>, whose
  message is \<open>Error: \<close> and the message of the error, followed by \<open> (retryable)\<close> exactly
  when the error is an \<open>AsanaApiError\<close> with the \<open>retryable\<close> flag. \<open>asana_test_connection\<close>
  reports a failed call as \<open>{connected: false, message}\<close> without the flag. The transport
  itself answers 401 only for a \<open>POST /mcp\<close> that fails the credential check.
\<close>

theorem tool_errors_enveloped:
  "(fst (createTask net c (create_task_input args) log) = Inl e \<longrightarrow>
      asana_create_task L net c args log =
        (formatError L e, snd (createTask net c (create_task_input args) log)))
   \<and> (fst (getTask net c taskGid optFields log) = Inl e \<longrightarrow>
        asana_get_task L net c taskGid optFields format log =
          (formatError L e, snd (getTask net c taskGid optFields log)))
   \<and> (fst (getTask net c taskGid optFields log) = Inr v
        \<and> formatResponse v format ''task'' = Inl e \<longrightarrow>
        asana_get_task L net c taskGid optFields format log =
          (formatError L e, snd (getTask net c taskGid optFields log)))
   \<and> (fst (listProjectTasks net c projectGid params log) = Inl e \<longrightarrow>
        asana_list_project_tasks L net c projectGid params format log =
          (formatError L e, snd (listProjectTasks net c projectGid params log)))
   \<and> (fst (listProjectTasks net c projectGid params log) = Inr page
        \<and> formatResponse page format ''tasks'' = Inl e \<longrightarrow>
        asana_list_project_tasks L net c projectGid params format log =
          (formatError L e, snd (listProjectTasks net c projectGid params log)))
   \<and> formatError L e =
       \<lparr>content_text = stringify 2
          (JObj [(''error'', JStr (''Error: ''
                    @ (if instanceof_Error e then message_of e else thrown_string e)
                    @ (if instanceof_AsanaApiError e \<and> retryable e then '' (retryable)'' else []))),
                 (''details'', L e)]),
        isError = True\<rparr>
   \<and> (\<exists>t. content_text (formatError L e) = Some t)
   \<and> (fst (getMe net c log) = Inl e \<longrightarrow>
        asana_test_connection net c log =
          (\<lparr>content_text = stringify 2
              (JObj [(''connected'', JBool False),
                     (''message'', JStr (if instanceof_Error e then message_of e
                                         else ''Connection failed''))]),
            isError = False\<rparr>, snd (getMe net c log)))
   \<and> (\<not> (url_pathname rq = ''/mcp'' \<and> http_method rq = ''POST''
            \<and> accessToken (parseTenantCredentials rq) \<noteq> []) \<longrightarrow>
        (status (fst (fetch handler rq log)) = 401) =
          (url_pathname rq = ''/mcp'' \<and> http_method rq = ''POST''))"
proof -
  have a: "fst (createTask net c (create_task_input args) log) = Inl e \<Longrightarrow>
      asana_create_task L net c args log =
        (formatError L e, snd (createTask net c (create_task_input args) log))"
    by (auto simp: asana_create_task_def split: prod.splits)
  have b: "fst (getTask net c taskGid optFields log) = Inl e \<Longrightarrow>
      asana_get_task L net c taskGid optFields format log =
        (formatError L e, snd (getTask net c taskGid optFields log))"
    by (auto simp: asana_get_task_def split: prod.splits)
  have b': "fst (getTask net c taskGid optFields log) = Inr v \<Longrightarrow>
      formatResponse v format ''task'' = Inl e \<Longrightarrow>
      asana_get_task L net c taskGid optFields format log =
        (formatError L e, snd (getTask net c taskGid optFields log))"
    by (auto simp: asana_get_task_def split: prod.splits)
  have d: "fst (listProjectTasks net c projectGid params log) = Inl e \<Longrightarrow>
      asana_list_project_tasks L net c projectGid params format log =
        (formatError L e, snd (listProjectTasks net c projectGid params log))"
    by (auto simp: asana_list_project_tasks_def split: prod.splits)
  have d': "fst (listProjectTasks net c projectGid params log) = Inr page \<Longrightarrow>
      formatResponse page format ''tasks'' = Inl e \<Longrightarrow>
      asana_list_project_tasks L net c projectGid params format log =
        (formatError L e, snd (listProjectTasks net c projectGid params log))"
    by (auto simp: asana_list_project_tasks_def split: prod.splits)
  have f: "\<exists>t. content_text (formatError L e) = Some t"
    by (simp add: formatError_shape stringify_def)
  have g: "fst (getMe net c log) = Inl e \<Longrightarrow>
      asana_test_connection net c log =
        (\<lparr>content_text = stringify 2
            (JObj [(''connected'', JBool False),
                   (''message'', JStr (if instanceof_Error e then message_of e
                                       else ''Connection failed''))]),
          isError = False\<rparr>, snd (getMe net c log))"
    by (auto simp: asana_test_connection_def testConnection_def split: prod.splits)
  have h: "\<not> (url_pathname rq = ''/mcp'' \<and> http_method rq = ''POST''
          \<and> accessToken (parseTenantCredentials rq) \<noteq> []) \<Longrightarrow>
      (status (fst (fetch handler rq log)) = 401) =
        (url_pathname rq = ''/mcp'' \<and> http_method rq = ''POST'')"
    by (auto simp: fetch_def validateCredentials_def health_response_def sse_response_def
        default_response_def unauthorized_response_def)
  show ?thesis
    using a b b' d d' f g h formatError_shape [of L e] by blast
qed

theorem tool_errors_enveloped_witness:
  \<open>asana_create_task MESSAGE_DETAILS (answering RATE_LIMITED_30) TOKEN SHIP_SPEC [] =
     (\<lparr>content_text = Some
         (''{'' @ newline @
          ''  "error": "Error: Rate limit exceeded (retryable)",'' @ newline @
          ''  "details": {'' @ newline @
          ''    "message": "Rate limit exceeded"'' @ newline @
          ''  }'' @ newline @
          ''}''),
       isError = True\<rparr>,
      snd (createTask (answering RATE_LIMITED_30) TOKEN (create_task_input SHIP_SPEC) []))
   \<and> fst (asana_get_task MESSAGE_DETAILS (answering UPSTREAM_401) TOKEN ''12345'' None Json []) =
     \<lparr>content_text = Some
         (''{'' @ newline @
          ''  "error": "Error: Authentication failed. Check your Asana access token.",'' @ newline @
          ''  "details": {'' @ newline @
          ''    "message": "Authentication failed. Check your Asana access token."'' @ newline @
          ''  }'' @ newline @
          ''}''),
       isError = True\<rparr>
   \<and> fst (asana_get_task MESSAGE_DETAILS (answering NULL_ITEMS) TOKEN ''12345'' None Markdown []) =
       formatError MESSAGE_DETAILS NULL_READ
   \<and> fst (asana_list_project_tasks MESSAGE_DETAILS (answering UPSTREAM_401) TOKEN ''1'' NO_PARAMS Json []) =
       formatError MESSAGE_DETAILS
         (AuthenticationError ''Authentication failed. Check your Asana access token.'')
   \<and> fst (asana_list_project_tasks MESSAGE_DETAILS (answering NULL_ITEMS) TOKEN ''1'' NO_PARAMS Markdown []) =
       formatError MESSAGE_DETAILS NULL_READ
   \<and> fst (asana_test_connection (answering UPSTREAM_401) TOKEN []) =
       \<lparr>content_text = stringify 2
          (JObj [(''connected'', JBool False),
                 (''message'', JStr ''Authentication failed. Check your Asana access token.'')]),
        isError = False\<rparr>
   \<and> status (fst (fetch calling_handler
        \<lparr>url_pathname = ''/mcp'', http_method = ''POST'', headers = Map.empty,
         request_body = ''{}''\<rparr> [])) = 401\<close>
proof -
  let ?rl = "RateLimitError ''Rate limit exceeded'' (JNum 30)"
  let ?au = "AuthenticationError ''Authentication failed. Check your Asana access token.''"
  have c1: "fst (createTask (answering RATE_LIMITED_30) TOKEN (create_task_input SHIP_SPEC) []) = Inl ?rl"
    by code_simp
  have t1: \<open>content_text (formatError MESSAGE_DETAILS ?rl) = Some
         (''{'' @ newline @
          ''  "error": "Error: Rate limit exceeded (retryable)",'' @ newline @
          ''  "details": {'' @ newline @
          ''    "message": "Rate limit exceeded"'' @ newline @
          ''  }'' @ newline @
          ''}'')\<close>
    by code_simp
  have a: \<open>asana_create_task MESSAGE_DETAILS (answering RATE_LIMITED_30) TOKEN SHIP_SPEC [] =
     (\<lparr>content_text = Some
         (''{'' @ newline @
          ''  "error": "Error: Rate limit exceeded (retryable)",'' @ newline @
          ''  "details": {'' @ newline @
          ''    "message": "Rate limit exceeded"'' @ newline @
          ''  }'' @ newline @
          ''}''),
       isError = True\<rparr>,
      snd (createTask (answering RATE_LIMITED_30) TOKEN (create_task_input SHIP_SPEC) []))\<close>
    using tool_errors_enveloped [where net = "answering RATE_LIMITED_30" and c = TOKEN
        and args = SHIP_SPEC and log = "[]" and e = ?rl and L = MESSAGE_DETAILS] c1 t1
    by (simp add: formatError_def)
  have c2: "fst (getTask (answering UPSTREAM_401) TOKEN ''12345'' None []) = Inl ?au"
    by code_simp
  have t2: \<open>formatError MESSAGE_DETAILS ?au =
     \<lparr>content_text = Some
         (''{'' @ newline @
          ''  "error": "Error: Authentication failed. Check your Asana access token.",'' @ newline @
          ''  "details": {'' @ newline @
          ''    "message": "Authentication failed. Check your Asana access token."'' @ newline @
          ''  }'' @ newline @
          ''}''),
       isError = True\<rparr>\<close>
    by code_simp
  have b: "fst (asana_get_task MESSAGE_DETAILS (answering UPSTREAM_401) TOKEN ''12345'' None Json []) =
      formatError MESSAGE_DETAILS ?au"
    using tool_errors_enveloped [where net = "answering UPSTREAM_401" and c = TOKEN
        and taskGid = "''12345''" and optFields = None and format = Json and log = "[]"
        and e = ?au and L = MESSAGE_DETAILS] c2
    by simp
  have c3: "fst (getTask (answering NULL_ITEMS) TOKEN ''12345'' None []) = Inr (JArr [JNull])"
    "formatResponse (JArr [JNull]) Markdown ''task'' = Inl NULL_READ"
    by code_simp+
  have b': "fst (asana_get_task MESSAGE_DETAILS (answering NULL_ITEMS) TOKEN ''12345'' None Markdown []) =
      formatError MESSAGE_DETAILS NULL_READ"
    using tool_errors_enveloped [where net = "answering NULL_ITEMS" and c = TOKEN
        and taskGid = "''12345''" and optFields = None and format = Markdown and log = "[]"
        and v = "JArr [JNull]" and e = NULL_READ and L = MESSAGE_DETAILS] c3
    by simp
  have c4: "fst (listProjectTasks (answering UPSTREAM_401) TOKEN ''1'' NO_PARAMS []) = Inl ?au"
    by code_simp
  have d: "fst (asana_list_project_tasks MESSAGE_DETAILS (answering UPSTREAM_401) TOKEN ''1'' NO_PARAMS Json []) =
      formatError MESSAGE_DETAILS ?au"
    using tool_errors_enveloped [where net = "answering UPSTREAM_401" and c = TOKEN
        and projectGid = "''1''" and params = NO_PARAMS and format = Json and log = "[]"
        and e = ?au and L = MESSAGE_DETAILS] c4
    by simp
  have c5: "fst (listProjectTasks (answering NULL_ITEMS) TOKEN ''1'' NO_PARAMS []) =
      Inr (JObj [(''data'', JArr [JNull]), (''nextPage'', JUndefined)])"
    "formatResponse (JObj [(''data'', JArr [JNull]), (''nextPage'', JUndefined)]) Markdown ''tasks'' =
      Inl NULL_READ"
    by code_simp+
  have d': "fst (asana_list_project_tasks MESSAGE_DETAILS (answering NULL_ITEMS) TOKEN ''1'' NO_PARAMS Markdown []) =
      formatError MESSAGE_DETAILS NULL_READ"
    using tool_errors_enveloped [where net = "answering NULL_ITEMS" and c = TOKEN
        and projectGid = "''1''" and params = NO_PARAMS and format = Markdown and log = "[]"
        and page = "JObj [(''data'', JArr [JNull]), (''nextPage'', JUndefined)]"
        and e = NULL_READ and L = MESSAGE_DETAILS] c5
    by simp
  have c6: "fst (getMe (answering UPSTREAM_401) TOKEN []) = Inl ?au"
    by code_simp
  have g: "fst (asana_test_connection (answering UPSTREAM_401) TOKEN []) =
       \<lparr>content_text = stringify 2
          (JObj [(''connected'', JBool False),
                 (''message'', JStr ''Authentication failed. Check your Asana access token.'')]),
        isError = False\<rparr>"
    using tool_errors_enveloped [where net = "answering UPSTREAM_401" and c = TOKEN and log = "[]"
        and e = ?au] c6
    by simp
  have h: "status (fst (fetch calling_handler
        \<lparr>url_pathname = ''/mcp'', http_method = ''POST'', headers = Map.empty,
         request_body = ''{}''\<rparr> [])) = 401"
    using tool_errors_enveloped [where rq = "\<lparr>url_pathname = ''/mcp'', http_method = ''POST'',
        headers = Map.empty, request_body = ''{}''\<rparr>" and handler = calling_handler and log = "[]"]
    by (simp add: parseTenantCredentials_def)
  show ?thesis
    using a b b' d d' g h unfolding t2 by blast
qed

text \<open>
  C7 as stated fails at \<open>asana_test_connection\<close>: an authentication error thrown inside the
  handler comes back as \<open>{connected: false, message}\<close>, not as \<open>{error, details}\<close>, and
  the response is not flagged as an error.
\<close>

theorem test_connection_not_enveloped:
  \<open>asana_test_connection (answering UPSTREAM_401) TOKEN [] =
     (\<lparr>content_text = Some
         (''{'' @ newline @
          ''  "connected": false,'' @ newline @
          ''  "message": "Authentication failed. Check your Asana access token."'' @ newline @
          ''}''),
       isError = False\<rparr>,
      [\<lparr>fetch_url = ''https://app.asana.com/api/1.0/users/me'', fetch_method = None,
        fetch_headers = TOKEN_HEADERS, fetch_body = None\<rparr>])\<close>
  by code_simp

end
